theory Spec2Isabelle
  imports Complex_Main
begin

section \<open>The door actuator of motor.cpp\<close>

text \<open>
  The program is one translation unit, \<^verbatim>\<open>motor.cpp\<close>: five global variables, two
  motor outputs, three LED outputs, two interrupt handlers and a main loop. The globals and
  the output pins are the fields of one record; every function of the source becomes a
  function from state to state.

  Numbers. The timers are C \<^verbatim>\<open>float\<close>s that start at \<^verbatim>\<open>10.0f\<close> and only ever
  have \<^verbatim>\<open>0.5f\<close> subtracted or are reset to \<^verbatim>\<open>10.0f\<close>. Between passes every value
  they take is a multiple of one half between one half and ten (lemma \<open>timer_values_on_grid\<close>
  below), and inside a pass zero at the lowest; binary32 represents all of these exactly, so
  the subtraction never rounds and the timers are modelled as real numbers. The motor current is the value returned by
  \<^verbatim>\<open>get_motor_current()\<close>; it is an input of the model, and comparing two finite
  floats is exact. Console output (\<^verbatim>\<open>cout\<close>) is write-only and is not part of the state.

  Interrupts. \<^verbatim>\<open>pressure_detected\<close> and \<^verbatim>\<open>pressure_relieved\<close> are attached to the two
  edges of one interrupt pin, and \<^verbatim>\<open>main\<close> never masks interrupts. A handler runs to
  completion, but it can start between any two statements of the main loop. The functions
  below say what each piece of code does when it runs undisturbed; the statement-level model
  (\<open>main_step\<close>, \<open>exec\<close>) lets a handler in between any two statements of the loop.
\<close>

subsection \<open>Constants\<close>

definition MOTOR_CURRENT_LIMIT :: real where
  \<comment> \<open>\<^verbatim>\<open>#define MOTOR_CURRENT_LIMIT 0.1f\<close>: the binary32 number nearest to one tenth.\<close>
  "MOTOR_CURRENT_LIMIT = 13421773 / 134217728"

definition CYCLE_TIME :: real where
  "CYCLE_TIME = 1 / 2"

definition DOOR_FALL_TIME :: real where
  "DOOR_FALL_TIME = 10"

definition DOOR_RISE_TIME :: real where
  "DOOR_RISE_TIME = 10"

definition RED :: int where
  "RED = 0"

definition GREEN :: int where
  "GREEN = 1"

definition BLUE :: int where
  "BLUE = 2"

subsection \<open>State\<close>

text \<open>
  A \<^verbatim>\<open>DigitalOut\<close> holds the level of its pin: \<open>True\<close> is 1, \<open>False\<close> is 0. The
  on-board LEDs are active low, so an LED is lit when its pin is \<open>False\<close>.
\<close>

record door =
  timer_up_en :: bool
  timer_down_en :: bool
  timer_down_value :: real
  timer_up_value :: real
  door_is_up :: bool
  OutputMotorUp :: bool
  OutputMotorDown :: bool
  RED_LED :: bool
  GREEN_LED :: bool
  BLUE_LED :: bool

definition initial_state :: door where
  \<comment> \<open>The state in which \<^verbatim>\<open>main\<close> enters its loop: the globals as initialised, the
      motor pins at 0 (mbed's \<^verbatim>\<open>DigitalOut\<close> constructor drives a pin low when it is given
      no value), and the three LED pins at 1.\<close>
  "initial_state =
     \<lparr> timer_up_en = False, timer_down_en = False,
       timer_down_value = DOOR_FALL_TIME, timer_up_value = DOOR_RISE_TIME,
       door_is_up = False,
       OutputMotorUp = False, OutputMotorDown = False,
       RED_LED = True, GREEN_LED = True, BLUE_LED = True \<rparr>"

subsection \<open>Operations\<close>

definition light_LED :: "int \<Rightarrow> door \<Rightarrow> door" where
  "light_LED LED s =
     (let s1 = s\<lparr>RED_LED := True, GREEN_LED := True, BLUE_LED := True\<rparr>
      in if LED = RED then s1\<lparr>RED_LED := False\<rparr>
         else if LED = GREEN then s1\<lparr>GREEN_LED := False\<rparr>
         else if LED = BLUE then s1\<lparr>BLUE_LED := False\<rparr>
         else s1)"

definition iterate_and_check_timer :: "door \<Rightarrow> door" where
  "iterate_and_check_timer s =
     (if timer_up_en s then
        (let s1 = s\<lparr>timer_up_value := timer_up_value s - CYCLE_TIME\<rparr>
         in if timer_up_value s1 \<le> 0 then
              (light_LED RED s1)
                \<lparr>timer_up_en := False, timer_up_value := DOOR_RISE_TIME,
                 OutputMotorUp := False, door_is_up := True\<rparr>
            else s1)
      else if timer_down_en s then
        (let s1 = s\<lparr>timer_down_value := timer_down_value s - CYCLE_TIME\<rparr>
         in if timer_down_value s1 \<le> 0 then
              (light_LED RED s1)
                \<lparr>timer_down_en := False, timer_down_value := DOOR_FALL_TIME,
                 OutputMotorDown := False, door_is_up := False\<rparr>
            else s1)
      else s)"

definition pressure_detected :: "door \<Rightarrow> door" where
  "pressure_detected s =
     (if \<not> door_is_up s \<and> \<not> timer_up_en s then
        light_LED GREEN (s\<lparr>OutputMotorUp := True, timer_up_en := True\<rparr>)
      else s)"

definition pressure_relieved :: "door \<Rightarrow> door" where
  "pressure_relieved s =
     (if door_is_up s \<and> \<not> timer_down_en s then
        light_LED BLUE (s\<lparr>OutputMotorDown := True, timer_down_en := True\<rparr>)
      else s)"

definition check_torque_sensor :: "real \<Rightarrow> door \<Rightarrow> door" where
  \<comment> \<open>The first argument is what \<^verbatim>\<open>get_motor_current()\<close> returned.\<close>
  "check_torque_sensor motor_current s =
     (if motor_current \<ge> MOTOR_CURRENT_LIMIT then
        light_LED RED (s\<lparr>OutputMotorUp := False, OutputMotorDown := False\<rparr>)
      else s)"

definition cycle :: "real \<Rightarrow> door \<Rightarrow> door" where
  \<comment> \<open>One pass of the \<^verbatim>\<open>while(true)\<close> loop of \<^verbatim>\<open>main\<close>.\<close>
  "cycle motor_current s = iterate_and_check_timer (check_torque_sensor motor_current s)"

subsection \<open>Runs in which no handler preempts a pass\<close>

text \<open>
  Here the two interrupt handlers and whole passes of the loop follow one another in any
  order: every interrupt falls between two passes. A run is the list of what happened; a tick
  carries the current measured in that pass. Every such run is an execution of the
  statement-level model below (lemma \<open>run_refines\<close>), but not the other way round.
\<close>

datatype event = PressureDetected | PressureRelieved | Tick real

fun step :: "door \<Rightarrow> event \<Rightarrow> door" where
  "step s PressureDetected = pressure_detected s"
| "step s PressureRelieved = pressure_relieved s"
| "step s (Tick motor_current) = cycle motor_current s"

definition run :: "event list \<Rightarrow> door \<Rightarrow> door" where
  "run es s = foldl step s es"

definition ticks :: "real list \<Rightarrow> door \<Rightarrow> door" where
  \<comment> \<open>Consecutive cycles with no interrupt between them.\<close>
  "ticks cs s = run (map Tick cs) s"

subsection \<open>Interrupts between the statements of the loop\<close>

text \<open>
  A location is the line of \<^verbatim>\<open>motor.cpp\<close> that the main loop executes next. The lines that
  only print or wait change nothing and have no location of their own: \<open>L191\<close> stands for
  every point from the return of \<^verbatim>\<open>iterate_and_check_timer\<close> to the comparison in
  \<^verbatim>\<open>check_torque_sensor\<close>. Inside \<^verbatim>\<open>light_LED\<close> (lines 117 to 125) a location also
  holds the argument of the call and the location to return to.
\<close>

datatype location =
    L191 | L193 | L194 | L195
  | L75 | L77 | L79 | L82 | L83 | L84 | L85 | L86
  | L91 | L93 | L95 | L98 | L99 | L100 | L101 | L102
  | L117 int location | L118 int location | L119 int location | L121 int location

fun main_step :: "real \<Rightarrow> location \<Rightarrow> door \<Rightarrow> location \<times> door" where
  \<comment> \<open>One statement of the main loop. The first argument is the motor current, read at
      line 191 only.\<close>
  "main_step c L191 s = (if c \<ge> MOTOR_CURRENT_LIMIT then (L193, s) else (L75, s))"
| "main_step c L193 s = (L194, s\<lparr>OutputMotorUp := False\<rparr>)"
| "main_step c L194 s = (L195, s\<lparr>OutputMotorDown := False\<rparr>)"
| "main_step c L195 s = (L117 RED L75, s)"
| "main_step c L75 s = (if timer_up_en s then (L77, s) else (L91, s))"
| "main_step c L77 s = (L79, s\<lparr>timer_up_value := timer_up_value s - CYCLE_TIME\<rparr>)"
| "main_step c L79 s = (if timer_up_value s \<le> 0 then (L82, s) else (L191, s))"
| "main_step c L82 s = (L117 RED L83, s)"
| "main_step c L83 s = (L84, s\<lparr>timer_up_en := False\<rparr>)"
| "main_step c L84 s = (L85, s\<lparr>timer_up_value := DOOR_RISE_TIME\<rparr>)"
| "main_step c L85 s = (L86, s\<lparr>OutputMotorUp := False\<rparr>)"
| "main_step c L86 s = (L191, s\<lparr>door_is_up := True\<rparr>)"
| "main_step c L91 s = (if timer_down_en s then (L93, s) else (L191, s))"
| "main_step c L93 s = (L95, s\<lparr>timer_down_value := timer_down_value s - CYCLE_TIME\<rparr>)"
| "main_step c L95 s = (if timer_down_value s \<le> 0 then (L98, s) else (L191, s))"
| "main_step c L98 s = (L117 RED L99, s)"
| "main_step c L99 s = (L100, s\<lparr>timer_down_en := False\<rparr>)"
| "main_step c L100 s = (L101, s\<lparr>timer_down_value := DOOR_FALL_TIME\<rparr>)"
| "main_step c L101 s = (L102, s\<lparr>OutputMotorDown := False\<rparr>)"
| "main_step c L102 s = (L191, s\<lparr>door_is_up := False\<rparr>)"
| "main_step c (L117 LED ret) s = (L118 LED ret, s\<lparr>RED_LED := True\<rparr>)"
| "main_step c (L118 LED ret) s = (L119 LED ret, s\<lparr>GREEN_LED := True\<rparr>)"
| "main_step c (L119 LED ret) s = (L121 LED ret, s\<lparr>BLUE_LED := True\<rparr>)"
| "main_step c (L121 LED ret) s =
     (ret, if LED = RED then s\<lparr>RED_LED := False\<rparr>
           else if LED = GREEN then s\<lparr>GREEN_LED := False\<rparr>
           else if LED = BLUE then s\<lparr>BLUE_LED := False\<rparr>
           else s)"

text \<open>
  \<^verbatim>\<open>PressureButton0.fall\<close> calls \<^verbatim>\<open>pressure_detected\<close> and \<^verbatim>\<open>PressureButton0.rise\<close>
  calls \<^verbatim>\<open>pressure_relieved\<close>. A handler runs as a whole and leaves the main loop where it
  was.
\<close>

datatype action = Fall | Rise | Main real

fun act :: "location \<times> door \<Rightarrow> action \<Rightarrow> location \<times> door" where
  "act (l, s) Fall = (l, pressure_detected s)"
| "act (l, s) Rise = (l, pressure_relieved s)"
| "act (l, s) (Main c) = main_step c l s"

definition exec :: "action list \<Rightarrow> location \<times> door \<Rightarrow> location \<times> door" where
  "exec as cfg = foldl act cfg as"

subsection \<open>Reading the indicator\<close>

definition lit_LEDs :: "door \<Rightarrow> int list" where
  \<comment> \<open>The colours of the LEDs that are lit (pin at 0), in the order red, green, blue.\<close>
  "lit_LEDs s =
     map fst (filter (\<lambda>(colour, pin). \<not> pin)
       [(RED, RED_LED s), (GREEN, GREEN_LED s), (BLUE, BLUE_LED s)])"

subsection \<open>Invariants\<close>

definition consistent :: "door \<Rightarrow> bool" where
  \<comment> \<open>How the enable flags, the position and the motor outputs hang together.\<close>
  "consistent s \<longleftrightarrow>
     (timer_up_en s \<longrightarrow> \<not> door_is_up s \<and> \<not> timer_down_en s) \<and>
     (timer_down_en s \<longrightarrow> door_is_up s) \<and>
     (OutputMotorUp s \<longrightarrow> timer_up_en s) \<and>
     (OutputMotorDown s \<longrightarrow> timer_down_en s)"

definition on_grid :: "real \<Rightarrow> bool" where
  \<comment> \<open>A multiple of \<^verbatim>\<open>CYCLE_TIME\<close> above zero and up to the full travel time.\<close>
  "on_grid v \<longleftrightarrow> (\<exists>k\<in>{1..20::nat}. v = real k / 2)"

definition timers_ok :: "door \<Rightarrow> bool" where
  "timers_ok s \<longleftrightarrow>
     on_grid (timer_up_value s) \<and> on_grid (timer_down_value s) \<and>
     (\<not> timer_up_en s \<longrightarrow> timer_up_value s = DOOR_RISE_TIME) \<and>
     (\<not> timer_down_en s \<longrightarrow> timer_down_value s = DOOR_FALL_TIME)"

section \<open>Properties\<close>

text \<open>Unfolding sets: the constants, the functions, and everything needed to run the model.\<close>

lemmas constants =
  MOTOR_CURRENT_LIMIT_def CYCLE_TIME_def DOOR_FALL_TIME_def DOOR_RISE_TIME_def
  RED_def GREEN_def BLUE_def

lemmas operations =
  light_LED_def iterate_and_check_timer_def pressure_detected_def pressure_relieved_def
  check_torque_sensor_def cycle_def

lemmas evaluation = run_def ticks_def operations initial_state_def constants Let_def

subsection \<open>Without preemption the flags, the position and the outputs stay consistent\<close>

text \<open>
  Each handler and each function of the loop, run undisturbed, keeps \<open>consistent\<close>, and so
  does every run in which the interrupts fall between passes. The statement-level model does
  not keep it, as the runs in the last part of this theory show.
\<close>

lemma consistent_initial: "consistent initial_state"
  by (simp add: consistent_def initial_state_def)

lemma consistent_pressure_detected: "consistent s \<Longrightarrow> consistent (pressure_detected s)"
  by (auto simp: consistent_def pressure_detected_def light_LED_def Let_def)

lemma consistent_pressure_relieved: "consistent s \<Longrightarrow> consistent (pressure_relieved s)"
  by (auto simp: consistent_def pressure_relieved_def light_LED_def Let_def)

lemma consistent_check_torque_sensor:
  "consistent s \<Longrightarrow> consistent (check_torque_sensor c s)"
  by (auto simp: consistent_def check_torque_sensor_def light_LED_def Let_def)

lemma consistent_iterate_and_check_timer:
  "consistent s \<Longrightarrow> consistent (iterate_and_check_timer s)"
  by (auto simp: consistent_def iterate_and_check_timer_def light_LED_def Let_def)

lemma consistent_step: "consistent s \<Longrightarrow> consistent (step s e)"
  by (cases e)
    (simp_all add: cycle_def consistent_pressure_detected consistent_pressure_relieved
      consistent_check_torque_sensor consistent_iterate_and_check_timer)

lemma consistent_run: "consistent s \<Longrightarrow> consistent (run es s)"
  unfolding run_def by (induction es arbitrary: s) (simp_all add: consistent_step)

lemma consistent_reachable: "consistent (run es initial_state)"
  by (rule consistent_run [OF consistent_initial])

subsection \<open>The timers stay on the half-second grid\<close>

lemma on_grid_full: "on_grid 10"
  unfolding on_grid_def by (rule bexI [of _ 20]) simp_all

lemma on_grid_decrement:
  assumes "on_grid v" and "\<not> v - 1 / 2 \<le> 0"
  shows "on_grid (v - 1 / 2)"
proof -
  from assms(1) obtain k :: nat where k: "1 \<le> k" "k \<le> 20" "v = real k / 2"
    by (auto simp: on_grid_def)
  from assms(2) k have "2 \<le> k" by simp
  then have "real (k - 1) / 2 = v - 1 / 2"
    using k by (simp add: of_nat_diff field_simps)
  moreover from \<open>2 \<le> k\<close> k(2) have "1 \<le> k - 1 \<and> k - 1 \<le> 20" by arith
  then have "k - 1 \<in> {1..20}" by simp
  ultimately show ?thesis unfolding on_grid_def by metis
qed

lemma on_grid_pos: "on_grid v \<Longrightarrow> 0 < v"
  by (auto simp: on_grid_def)

lemma timers_ok_initial: "timers_ok initial_state"
  by (simp add: timers_ok_def initial_state_def on_grid_full constants)

lemma timers_ok_pressure_detected: "timers_ok s \<Longrightarrow> timers_ok (pressure_detected s)"
  by (auto simp: timers_ok_def pressure_detected_def light_LED_def Let_def)

lemma timers_ok_pressure_relieved: "timers_ok s \<Longrightarrow> timers_ok (pressure_relieved s)"
  by (auto simp: timers_ok_def pressure_relieved_def light_LED_def Let_def)

lemma timers_ok_check_torque_sensor: "timers_ok s \<Longrightarrow> timers_ok (check_torque_sensor c s)"
  by (simp add: timers_ok_def check_torque_sensor_def light_LED_def Let_def)

lemma timers_ok_iterate_and_check_timer:
  assumes "timers_ok s"
  shows "timers_ok (iterate_and_check_timer s)"
  using assms on_grid_decrement [of "timer_up_value s"]
    on_grid_decrement [of "timer_down_value s"]
  by (auto simp: timers_ok_def iterate_and_check_timer_def light_LED_def Let_def
      CYCLE_TIME_def DOOR_RISE_TIME_def DOOR_FALL_TIME_def on_grid_full)

lemma timers_ok_step: "timers_ok s \<Longrightarrow> timers_ok (step s e)"
  by (cases e)
    (simp_all add: cycle_def timers_ok_pressure_detected timers_ok_pressure_relieved
      timers_ok_check_torque_sensor timers_ok_iterate_and_check_timer)

lemma timers_ok_run: "timers_ok s \<Longrightarrow> timers_ok (run es s)"
  unfolding run_def by (induction es arbitrary: s) (simp_all add: timers_ok_step)

lemma timers_ok_reachable: "timers_ok (run es initial_state)"
  by (rule timers_ok_run [OF timers_ok_initial])

lemma timer_values_on_grid:
  "on_grid (timer_up_value (run es initial_state)) \<and>
   on_grid (timer_down_value (run es initial_state))"
  using timers_ok_reachable [of es] by (simp add: timers_ok_def)

subsection \<open>What one cycle does\<close>

lemma check_torque_sensor_frame:
  "timer_up_en (check_torque_sensor c s) = timer_up_en s \<and>
   timer_down_en (check_torque_sensor c s) = timer_down_en s \<and>
   timer_up_value (check_torque_sensor c s) = timer_up_value s \<and>
   timer_down_value (check_torque_sensor c s) = timer_down_value s \<and>
   door_is_up (check_torque_sensor c s) = door_is_up s"
  by (simp add: check_torque_sensor_def light_LED_def Let_def)

lemma check_torque_sensor_overload:
  assumes "MOTOR_CURRENT_LIMIT \<le> c"
  shows "check_torque_sensor c s =
           s\<lparr>OutputMotorUp := False, OutputMotorDown := False,
             RED_LED := False, GREEN_LED := True, BLUE_LED := True\<rparr>"
  using assms by (simp add: check_torque_sensor_def light_LED_def Let_def RED_def)

lemma iterate_and_check_timer_outputs:
  "(OutputMotorUp (iterate_and_check_timer s) \<longrightarrow> OutputMotorUp s) \<and>
   (OutputMotorDown (iterate_and_check_timer s) \<longrightarrow> OutputMotorDown s)"
  by (simp add: iterate_and_check_timer_def light_LED_def Let_def)

lemma cycle_outputs_stay_off:
  "(OutputMotorUp (cycle c s) \<longrightarrow> OutputMotorUp s) \<and>
   (OutputMotorDown (cycle c s) \<longrightarrow> OutputMotorDown s)"
  by (simp add: operations Let_def)

lemma cycle_overload_outputs_off:
  assumes "MOTOR_CURRENT_LIMIT \<le> c"
  shows "\<not> OutputMotorUp (cycle c s) \<and> \<not> OutputMotorDown (cycle c s)"
proof -
  have "\<not> OutputMotorUp (check_torque_sensor c s) \<and>
        \<not> OutputMotorDown (check_torque_sensor c s)"
    by (simp add: check_torque_sensor_overload [OF assms])
  with iterate_and_check_timer_outputs [of "check_torque_sensor c s"]
  show ?thesis by (simp add: cycle_def)
qed

lemma cycle_up_running:
  assumes "timer_up_en s" and "CYCLE_TIME < timer_up_value s"
  shows "timer_up_en (cycle c s) \<and>
         timer_up_value (cycle c s) = timer_up_value s - CYCLE_TIME \<and>
         timer_down_en (cycle c s) = timer_down_en s \<and>
         timer_down_value (cycle c s) = timer_down_value s \<and>
         door_is_up (cycle c s) = door_is_up s"
  using assms by (simp add: operations Let_def)

lemma cycle_up_expiry:
  assumes "timer_up_en s" and "timer_up_value s \<le> CYCLE_TIME"
  shows "\<not> timer_up_en (cycle c s) \<and>
         timer_up_value (cycle c s) = DOOR_RISE_TIME \<and>
         \<not> OutputMotorUp (cycle c s) \<and>
         door_is_up (cycle c s) \<and>
         timer_down_en (cycle c s) = timer_down_en s \<and>
         timer_down_value (cycle c s) = timer_down_value s"
  using assms by (simp add: operations Let_def)

lemma cycle_down_running:
  assumes "\<not> timer_up_en s" and "timer_down_en s" and "CYCLE_TIME < timer_down_value s"
  shows "timer_down_en (cycle c s) \<and>
         timer_down_value (cycle c s) = timer_down_value s - CYCLE_TIME \<and>
         \<not> timer_up_en (cycle c s) \<and>
         timer_up_value (cycle c s) = timer_up_value s \<and>
         door_is_up (cycle c s) = door_is_up s"
  using assms by (simp add: operations Let_def)

lemma cycle_down_expiry:
  assumes "\<not> timer_up_en s" and "timer_down_en s" and "timer_down_value s \<le> CYCLE_TIME"
  shows "\<not> timer_down_en (cycle c s) \<and>
         timer_down_value (cycle c s) = DOOR_FALL_TIME \<and>
         \<not> OutputMotorDown (cycle c s) \<and>
         \<not> door_is_up (cycle c s) \<and>
         \<not> timer_up_en (cycle c s) \<and>
         timer_up_value (cycle c s) = timer_up_value s"
  using assms by (simp add: operations Let_def)

lemma cycle_idle:
  assumes "\<not> timer_up_en s" and "\<not> timer_down_en s"
  shows "\<not> timer_up_en (cycle c s) \<and> \<not> timer_down_en (cycle c s) \<and>
         timer_up_value (cycle c s) = timer_up_value s \<and>
         timer_down_value (cycle c s) = timer_down_value s \<and>
         door_is_up (cycle c s) = door_is_up s"
  using assms by (simp add: operations Let_def)

subsection \<open>What consecutive cycles do\<close>

lemma ticks_Nil: "ticks [] s = s"
  by (simp add: ticks_def run_def)

lemma ticks_Cons: "ticks (c # cs) s = ticks cs (cycle c s)"
  by (simp add: ticks_def run_def)

lemma ticks_outputs_stay_off:
  "(\<not> OutputMotorUp s \<longrightarrow> \<not> OutputMotorUp (ticks cs s)) \<and>
   (\<not> OutputMotorDown s \<longrightarrow> \<not> OutputMotorDown (ticks cs s))"
proof (induction cs arbitrary: s)
  case Nil
  show ?case by (simp add: ticks_Nil)
next
  case (Cons c cs)
  from Cons.IH [of "cycle c s"] cycle_outputs_stay_off [of c s]
  show ?case by (auto simp: ticks_Cons)
qed

lemma ticks_overload_outputs_off:
  assumes "MOTOR_CURRENT_LIMIT \<le> c"
  shows "\<not> OutputMotorUp (ticks (c # cs) s) \<and> \<not> OutputMotorDown (ticks (c # cs) s)"
  using cycle_overload_outputs_off [OF assms, of s] ticks_outputs_stay_off [of "cycle c s" cs]
  by (simp add: ticks_Cons)

lemma ticks_idle:
  assumes "\<not> timer_up_en s" and "\<not> timer_down_en s"
  shows "\<not> timer_up_en (ticks cs s) \<and> \<not> timer_down_en (ticks cs s) \<and>
         door_is_up (ticks cs s) = door_is_up s"
  using assms
proof (induction cs arbitrary: s)
  case Nil
  then show ?case by (simp add: ticks_Nil)
next
  case (Cons c cs)
  from cycle_idle [OF Cons.prems, of c] Cons.IH [of "cycle c s"]
  show ?case by (simp add: ticks_Cons)
qed

lemma ticks_up_running:
  assumes "timer_up_en s" and "real (length cs) * CYCLE_TIME < timer_up_value s"
  shows "timer_up_en (ticks cs s) \<and>
         timer_up_value (ticks cs s) = timer_up_value s - real (length cs) * CYCLE_TIME \<and>
         door_is_up (ticks cs s) = door_is_up s"
  using assms
proof (induction cs arbitrary: s)
  case Nil
  then show ?case by (simp add: ticks_Nil)
next
  case (Cons c cs)
  from Cons.prems(2) have more: "CYCLE_TIME < timer_up_value s"
    by (simp add: CYCLE_TIME_def field_simps)
  note one = cycle_up_running [OF Cons.prems(1) more, of c]
  from Cons.prems(2) one
  have "real (length cs) * CYCLE_TIME < timer_up_value (cycle c s)"
    by (simp add: field_simps)
  with one Cons.IH [of "cycle c s"] show ?case
    by (simp add: ticks_Cons field_simps)
qed

lemma ticks_up_expires:
  assumes "timer_up_en s" and "\<not> timer_down_en s" and "cs \<noteq> []"
    and "timer_up_value s \<le> real (length cs) * CYCLE_TIME"
  shows "door_is_up (ticks cs s) \<and> \<not> timer_up_en (ticks cs s) \<and>
         \<not> timer_down_en (ticks cs s) \<and> \<not> OutputMotorUp (ticks cs s)"
  using assms
proof (induction cs arbitrary: s)
  case Nil
  then show ?case by simp
next
  case (Cons c cs)
  show ?case
  proof (cases "timer_up_value s \<le> CYCLE_TIME")
    case True
    note one = cycle_up_expiry [OF Cons.prems(1) True, of c]
    with Cons.prems(2) have idle: "\<not> timer_up_en (cycle c s)" "\<not> timer_down_en (cycle c s)"
      by simp_all
    from ticks_idle [OF idle, of cs] ticks_outputs_stay_off [of "cycle c s" cs] one
    show ?thesis by (simp add: ticks_Cons)
  next
    case False
    then have more: "CYCLE_TIME < timer_up_value s" by simp
    note one = cycle_up_running [OF Cons.prems(1) more, of c]
    from more Cons.prems(4) have "cs \<noteq> []"
      by (auto simp: CYCLE_TIME_def)
    moreover from Cons.prems(4) one
    have "timer_up_value (cycle c s) \<le> real (length cs) * CYCLE_TIME"
      by (simp add: field_simps)
    ultimately show ?thesis
      using Cons.IH [of "cycle c s"] one Cons.prems(2) by (simp add: ticks_Cons)
  qed
qed

lemma ticks_down_running:
  assumes "\<not> timer_up_en s" and "timer_down_en s"
    and "real (length cs) * CYCLE_TIME < timer_down_value s"
  shows "timer_down_en (ticks cs s) \<and> \<not> timer_up_en (ticks cs s) \<and>
         timer_down_value (ticks cs s) = timer_down_value s - real (length cs) * CYCLE_TIME \<and>
         door_is_up (ticks cs s) = door_is_up s"
  using assms
proof (induction cs arbitrary: s)
  case Nil
  then show ?case by (simp add: ticks_Nil)
next
  case (Cons c cs)
  from Cons.prems(3) have more: "CYCLE_TIME < timer_down_value s"
    by (simp add: CYCLE_TIME_def field_simps)
  note one = cycle_down_running [OF Cons.prems(1,2) more, of c]
  from Cons.prems(3) one
  have "real (length cs) * CYCLE_TIME < timer_down_value (cycle c s)"
    by (simp add: field_simps)
  with one Cons.IH [of "cycle c s"] show ?case
    by (simp add: ticks_Cons field_simps)
qed

lemma ticks_down_expires:
  assumes "\<not> timer_up_en s" and "timer_down_en s" and "cs \<noteq> []"
    and "timer_down_value s \<le> real (length cs) * CYCLE_TIME"
  shows "\<not> door_is_up (ticks cs s) \<and> \<not> timer_up_en (ticks cs s) \<and>
         \<not> timer_down_en (ticks cs s) \<and> \<not> OutputMotorDown (ticks cs s)"
  using assms
proof (induction cs arbitrary: s)
  case Nil
  then show ?case by simp
next
  case (Cons c cs)
  show ?case
  proof (cases "timer_down_value s \<le> CYCLE_TIME")
    case True
    note one = cycle_down_expiry [OF Cons.prems(1,2) True, of c]
    then have idle: "\<not> timer_up_en (cycle c s)" "\<not> timer_down_en (cycle c s)"
      by simp_all
    from ticks_idle [OF idle, of cs] ticks_outputs_stay_off [of "cycle c s" cs] one
    show ?thesis by (simp add: ticks_Cons)
  next
    case False
    then have more: "CYCLE_TIME < timer_down_value s" by simp
    note one = cycle_down_running [OF Cons.prems(1,2) more, of c]
    from more Cons.prems(4) have "cs \<noteq> []"
      by (auto simp: CYCLE_TIME_def)
    moreover from Cons.prems(4) one
    have "timer_down_value (cycle c s) \<le> real (length cs) * CYCLE_TIME"
      by (simp add: field_simps)
    ultimately show ?thesis
      using Cons.IH [of "cycle c s"] one by (simp add: ticks_Cons)
  qed
qed

subsection \<open>The statements of a pass, run undisturbed, do what the functions do\<close>

lemma exec_Nil: "exec [] cfg = cfg"
  by (simp add: exec_def)

lemma exec_Cons: "exec (a # as) cfg = exec as (act cfg a)"
  by (simp add: exec_def)

lemma exec_append: "exec (as @ bs) cfg = exec bs (exec as cfg)"
  by (simp add: exec_def)

lemmas stepping = numeral_eq_Suc exec_Cons exec_Nil operations Let_def

lemma light_LED_refines:
  "exec (replicate 4 (Main c)) (L117 LED ret, s) = (ret, light_LED LED s)"
  by (simp add: stepping)

lemma check_torque_sensor_refines:
  "\<exists>n. exec (replicate n (Main c)) (L191, s) = (L75, check_torque_sensor c s)"
proof (cases "MOTOR_CURRENT_LIMIT \<le> c")
  case True
  then have "exec (replicate 8 (Main c)) (L191, s) = (L75, check_torque_sensor c s)"
    by (simp add: stepping)
  then show ?thesis ..
next
  case False
  then have "exec (replicate 1 (Main c)) (L191, s) = (L75, check_torque_sensor c s)"
    by (simp add: stepping)
  then show ?thesis ..
qed

lemma iterate_and_check_timer_refines:
  "\<exists>n. exec (replicate n (Main c)) (L75, s) = (L191, iterate_and_check_timer s)"
proof -
  consider (up_expiry) "timer_up_en s" "timer_up_value s - CYCLE_TIME \<le> 0"
    | (up_running) "timer_up_en s" "\<not> timer_up_value s - CYCLE_TIME \<le> 0"
    | (down_expiry) "\<not> timer_up_en s" "timer_down_en s" "timer_down_value s - CYCLE_TIME \<le> 0"
    | (down_running) "\<not> timer_up_en s" "timer_down_en s"
        "\<not> timer_down_value s - CYCLE_TIME \<le> 0"
    | (idle) "\<not> timer_up_en s" "\<not> timer_down_en s"
    by blast
  then show ?thesis
  proof cases
    case up_expiry
    then have "exec (replicate 12 (Main c)) (L75, s) = (L191, iterate_and_check_timer s)"
      by (simp add: stepping)
    then show ?thesis ..
  next
    case up_running
    then have "exec (replicate 3 (Main c)) (L75, s) = (L191, iterate_and_check_timer s)"
      by (simp add: stepping)
    then show ?thesis ..
  next
    case down_expiry
    then have "exec (replicate 13 (Main c)) (L75, s) = (L191, iterate_and_check_timer s)"
      by (simp add: stepping)
    then show ?thesis ..
  next
    case down_running
    then have "exec (replicate 4 (Main c)) (L75, s) = (L191, iterate_and_check_timer s)"
      by (simp add: stepping)
    then show ?thesis ..
  next
    case idle
    then have "exec (replicate 2 (Main c)) (L75, s) = (L191, iterate_and_check_timer s)"
      by (simp add: stepping)
    then show ?thesis ..
  qed
qed

lemma cycle_refines: "\<exists>as. exec as (L191, s) = (L191, cycle c s)"
proof -
  obtain m where "exec (replicate m (Main c)) (L191, s) = (L75, check_torque_sensor c s)"
    using check_torque_sensor_refines by blast
  moreover obtain n where "exec (replicate n (Main c)) (L75, check_torque_sensor c s) =
      (L191, iterate_and_check_timer (check_torque_sensor c s))"
    using iterate_and_check_timer_refines by blast
  ultimately have "exec (replicate m (Main c) @ replicate n (Main c)) (L191, s) =
      (L191, cycle c s)"
    by (simp add: exec_append cycle_def)
  then show ?thesis ..
qed

lemma step_refines: "\<exists>as. exec as (L191, s) = (L191, step s e)"
proof (cases e)
  case PressureDetected
  then have "exec [Fall] (L191, s) = (L191, step s e)"
    by (simp add: exec_Cons exec_Nil)
  then show ?thesis ..
next
  case PressureRelieved
  then have "exec [Rise] (L191, s) = (L191, step s e)"
    by (simp add: exec_Cons exec_Nil)
  then show ?thesis ..
next
  case (Tick c)
  then show ?thesis using cycle_refines [of s c] by simp
qed

lemma run_refines: "\<exists>as. exec as (L191, s) = (L191, run es s)"
proof (induction es arbitrary: s)
  case Nil
  have "exec [] (L191, s) = (L191, run [] s)"
    by (simp add: exec_Nil run_def)
  then show ?case ..
next
  case (Cons e es)
  obtain as where "exec as (L191, s) = (L191, step s e)"
    using step_refines by blast
  moreover obtain bs where "exec bs (L191, step s e) = (L191, run es (step s e))"
    using Cons.IH by blast
  ultimately have "exec (as @ bs) (L191, s) = (L191, run (e # es) s)"
    by (simp add: exec_append run_def)
  then show ?case ..
qed

section \<open>The claims\<close>

subsection \<open>Overload stops both outputs\<close>

text \<open>
  Claim C1. Whatever the state at the start of a cycle, if the current read in that cycle is
  at or above \<^verbatim>\<open>MOTOR_CURRENT_LIMIT\<close>, the cycle (safety check, then timer advance) ends
  with the drive-up and the drive-down output both off.
\<close>

theorem overload_cycle_stops_both_outputs:
  assumes "MOTOR_CURRENT_LIMIT \<le> motor_current"
  shows "\<not> OutputMotorUp (cycle motor_current s) \<and> \<not> OutputMotorDown (cycle motor_current s)"
  using assms by (simp add: operations Let_def)

theorem overload_cycle_stops_both_outputs_witness:
  "MOTOR_CURRENT_LIMIT \<le> 3 / 20 \<and>
   OutputMotorUp (pressure_detected initial_state) \<and>
   \<not> OutputMotorUp (cycle (3 / 20) (pressure_detected initial_state)) \<and>
   \<not> OutputMotorDown (cycle (3 / 20) (pressure_detected initial_state))"
proof -
  have over: "MOTOR_CURRENT_LIMIT \<le> 3 / 20"
    by (simp add: MOTOR_CURRENT_LIMIT_def)
  have "OutputMotorUp (pressure_detected initial_state)"
    by (simp add: evaluation)
  with over overload_cycle_stops_both_outputs [OF over, of "pressure_detected initial_state"]
  show ?thesis by simp
qed

subsection \<open>Overload during travel\<close>

text \<open>
  Claim C2, as stated: after an overload during travel the cycle ends with both outputs off,
  no timer enabled and the position unchanged. The code does not do the second: raise the door
  by a full stroke, release the pressure so that the door starts down, and read 0.15 A in the
  next cycle. The drive-down output goes off and the door still counts as up, but the down
  timer is still enabled.
\<close>

theorem overload_sets_idle_counterexample:
  "MOTOR_CURRENT_LIMIT \<le> 3 / 20 \<and>
   door_is_up
     (run (PressureDetected # map Tick (replicate 20 0) @ [PressureRelieved]) initial_state) \<and>
   timer_down_en
     (run (PressureDetected # map Tick (replicate 20 0) @ [PressureRelieved]) initial_state) \<and>
   OutputMotorDown
     (run (PressureDetected # map Tick (replicate 20 0) @ [PressureRelieved]) initial_state) \<and>
   \<not> (\<not> OutputMotorUp
          (run (PressureDetected # map Tick (replicate 20 0) @ [PressureRelieved, Tick (3 / 20)])
            initial_state) \<and>
      \<not> OutputMotorDown
          (run (PressureDetected # map Tick (replicate 20 0) @ [PressureRelieved, Tick (3 / 20)])
            initial_state) \<and>
      \<not> timer_up_en
          (run (PressureDetected # map Tick (replicate 20 0) @ [PressureRelieved, Tick (3 / 20)])
            initial_state) \<and>
      \<not> timer_down_en
          (run (PressureDetected # map Tick (replicate 20 0) @ [PressureRelieved, Tick (3 / 20)])
            initial_state) \<and>
      door_is_up
          (run (PressureDetected # map Tick (replicate 20 0) @ [PressureRelieved, Tick (3 / 20)])
            initial_state))"
  by (simp add: evaluation numeral_eq_Suc)

text \<open>
  Claim C2, amended. A cycle whose current is at or above the limit ends with both outputs
  off. If a travel timer was enabled with more than one cycle time left, that timer is still
  enabled at the end of the cycle, one cycle time lower, and the position is unchanged.
\<close>

theorem overload_stops_outputs_timer_keeps_running:
  assumes "MOTOR_CURRENT_LIMIT \<le> motor_current"
  shows "\<not> OutputMotorUp (cycle motor_current s) \<and>
    \<not> OutputMotorDown (cycle motor_current s) \<and>
    (timer_up_en s \<and> CYCLE_TIME < timer_up_value s \<longrightarrow>
       timer_up_en (cycle motor_current s) \<and>
       timer_up_value (cycle motor_current s) = timer_up_value s - CYCLE_TIME \<and>
       door_is_up (cycle motor_current s) = door_is_up s) \<and>
    (\<not> timer_up_en s \<and> timer_down_en s \<and> CYCLE_TIME < timer_down_value s \<longrightarrow>
       timer_down_en (cycle motor_current s) \<and>
       timer_down_value (cycle motor_current s) = timer_down_value s - CYCLE_TIME \<and>
       door_is_up (cycle motor_current s) = door_is_up s)"
  using cycle_overload_outputs_off [OF assms, of s] cycle_up_running [of s motor_current]
    cycle_down_running [of s motor_current]
  by simp

theorem overload_stops_outputs_timer_keeps_running_witness:
  "MOTOR_CURRENT_LIMIT \<le> 3 / 20 \<and>
   \<not> timer_up_en
       (run (PressureDetected # map Tick (replicate 20 0) @ [PressureRelieved]) initial_state) \<and>
   timer_down_en
     (run (PressureDetected # map Tick (replicate 20 0) @ [PressureRelieved]) initial_state) \<and>
   CYCLE_TIME < timer_down_value
     (run (PressureDetected # map Tick (replicate 20 0) @ [PressureRelieved]) initial_state) \<and>
   door_is_up
     (run (PressureDetected # map Tick (replicate 20 0) @ [PressureRelieved]) initial_state) \<and>
   \<not> OutputMotorDown (cycle (3 / 20)
       (run (PressureDetected # map Tick (replicate 20 0) @ [PressureRelieved]) initial_state)) \<and>
   timer_down_en (cycle (3 / 20)
     (run (PressureDetected # map Tick (replicate 20 0) @ [PressureRelieved]) initial_state)) \<and>
   door_is_up (cycle (3 / 20)
     (run (PressureDetected # map Tick (replicate 20 0) @ [PressureRelieved]) initial_state))"
proof -
  have over: "MOTOR_CURRENT_LIMIT \<le> 3 / 20"
    by (simp add: MOTOR_CURRENT_LIMIT_def)
  have "\<not> timer_up_en
       (run (PressureDetected # map Tick (replicate 20 0) @ [PressureRelieved]) initial_state) \<and>
   timer_down_en
     (run (PressureDetected # map Tick (replicate 20 0) @ [PressureRelieved]) initial_state) \<and>
   CYCLE_TIME < timer_down_value
     (run (PressureDetected # map Tick (replicate 20 0) @ [PressureRelieved]) initial_state) \<and>
   door_is_up
     (run (PressureDetected # map Tick (replicate 20 0) @ [PressureRelieved]) initial_state)"
    by (simp add: evaluation numeral_eq_Suc)
  with over overload_stops_outputs_timer_keeps_running [OF over,
      of "run (PressureDetected # map Tick (replicate 20 0) @ [PressureRelieved]) initial_state"]
  show ?thesis by simp
qed

subsection \<open>The motor outputs under interrupts\<close>

text \<open>
  Claim C3. From the initial state, under any interleaving of the two handlers and the loop,
  the drive-up and the drive-down output are never on together. The program does not keep
  this. When the up timer expires, \<^verbatim>\<open>iterate_and_check_timer\<close> clears \<^verbatim>\<open>timer_up_en\<close>
  (line 83) and the drive-up output (line 85) before it sets \<^verbatim>\<open>door_is_up\<close> (line 86). A
  falling edge just before line 86 finds the door down and the timer off, so
  \<^verbatim>\<open>pressure_detected\<close> switches drive-up on again; line 86 then records the door as up, and
  the next rising edge passes the guard of \<^verbatim>\<open>pressure_relieved\<close>, which switches drive-down
  on as well. The run: pressure applied; nineteen passes (76 statements); pressure released,
  which is ignored because the door is not up; the twentieth pass as far as line 86 (12
  statements); pressure applied; line 86; pressure released.
\<close>

theorem expiry_race_both_outputs_on:
  "fst (exec (Fall # replicate 76 (Main 0) @ Rise # replicate 12 (Main 0))
          (L191, initial_state)) = L86 \<and>
   OutputMotorUp
     (snd (exec (Fall # replicate 76 (Main 0) @ Rise # replicate 12 (Main 0) @
                 [Fall, Main 0, Rise]) (L191, initial_state))) \<and>
   OutputMotorDown
     (snd (exec (Fall # replicate 76 (Main 0) @ Rise # replicate 12 (Main 0) @
                 [Fall, Main 0, Rise]) (L191, initial_state)))"
  by (simp add: stepping initial_state_def constants exec_append)

subsection \<open>The safety check writes the outputs itself\<close>

text \<open>
  Claim C4, as stated: \<^verbatim>\<open>check_torque_sensor\<close> changes no state and leaves the stop to
  its caller. It does not: with the motor driving up, a reading of 0.15 A makes
  \<^verbatim>\<open>check_torque_sensor\<close> itself switch the drive-up output off.
\<close>

theorem check_torque_sensor_pure_counterexample:
  "MOTOR_CURRENT_LIMIT \<le> 3 / 20 \<and>
   OutputMotorUp (pressure_detected initial_state) \<and>
   \<not> OutputMotorUp (check_torque_sensor (3 / 20) (pressure_detected initial_state)) \<and>
   check_torque_sensor (3 / 20) (pressure_detected initial_state) \<noteq>
     pressure_detected initial_state"
proof -
  have "MOTOR_CURRENT_LIMIT \<le> 3 / 20 \<and>
        OutputMotorUp (pressure_detected initial_state) \<and>
        \<not> OutputMotorUp (check_torque_sensor (3 / 20) (pressure_detected initial_state))"
    by (simp add: evaluation)
  then show ?thesis by metis
qed

text \<open>
  Claim C4, amended. Below the limit \<^verbatim>\<open>check_torque_sensor\<close> changes nothing. At or
  above the limit it performs the stop itself: it switches both motor outputs off and lights
  the red LED, and changes nothing else (timers and position stay as they were).
\<close>

theorem check_torque_sensor_effect:
  "(motor_current < MOTOR_CURRENT_LIMIT \<longrightarrow> check_torque_sensor motor_current s = s) \<and>
   (MOTOR_CURRENT_LIMIT \<le> motor_current \<longrightarrow>
      check_torque_sensor motor_current s =
        s\<lparr>OutputMotorUp := False, OutputMotorDown := False,
          RED_LED := False, GREEN_LED := True, BLUE_LED := True\<rparr>)"
  by (simp add: check_torque_sensor_def light_LED_def Let_def RED_def)

theorem check_torque_sensor_effect_witness:
  "(0::real) < MOTOR_CURRENT_LIMIT \<and>
   check_torque_sensor 0 (pressure_detected initial_state) = pressure_detected initial_state \<and>
   MOTOR_CURRENT_LIMIT \<le> 3 / 20 \<and>
   check_torque_sensor (3 / 20) (pressure_detected initial_state) =
     (pressure_detected initial_state)
       \<lparr>OutputMotorUp := False, OutputMotorDown := False,
        RED_LED := False, GREEN_LED := True, BLUE_LED := True\<rparr>"
proof -
  have "(0::real) < MOTOR_CURRENT_LIMIT \<and> MOTOR_CURRENT_LIMIT \<le> 3 / 20"
    by (simp add: MOTOR_CURRENT_LIMIT_def)
  with check_torque_sensor_effect [of 0 "pressure_detected initial_state"]
    check_torque_sensor_effect [of "3 / 20" "pressure_detected initial_state"]
  show ?thesis by simp
qed

subsection \<open>Motion and position under interrupts\<close>

text \<open>
  Claim C5. In every reachable state the up timer is enabled only while the door is not up,
  and the down timer only while the door is up. The program does not keep this. Take the run
  in which the up timer expires and a falling edge arrives just before line 86: pressure
  applied; nineteen passes (76 statements); pressure released, which is ignored; the twentieth
  pass as far as line 86 (12 statements). The main loop is at line 86 with the up timer off
  and the door still recorded as down; \<^verbatim>\<open>pressure_detected\<close> passes its guard
  there and enables the up timer, and line 86 then records the door as up: the up timer is
  enabled, the drive-up output is on, and the door counts as up.
\<close>

theorem expiry_race_up_timer_with_door_up:
  "fst (exec (Fall # replicate 76 (Main 0) @ Rise # replicate 12 (Main 0))
          (L191, initial_state)) = L86 \<and>
   \<not> timer_up_en
       (snd (exec (Fall # replicate 76 (Main 0) @ Rise # replicate 12 (Main 0))
               (L191, initial_state))) \<and>
   \<not> door_is_up
       (snd (exec (Fall # replicate 76 (Main 0) @ Rise # replicate 12 (Main 0))
               (L191, initial_state))) \<and>
   timer_up_en
     (snd (exec (Fall # replicate 76 (Main 0) @ Rise # replicate 12 (Main 0) @
                 [Fall, Main 0]) (L191, initial_state))) \<and>
   OutputMotorUp
     (snd (exec (Fall # replicate 76 (Main 0) @ Rise # replicate 12 (Main 0) @
                 [Fall, Main 0]) (L191, initial_state))) \<and>
   door_is_up
     (snd (exec (Fall # replicate 76 (Main 0) @ Rise # replicate 12 (Main 0) @
                 [Fall, Main 0]) (L191, initial_state)))"
  by (simp add: stepping initial_state_def constants exec_append)

subsection \<open>The two timers under interrupts\<close>

text \<open>
  Claim C6. In every state reachable by interrupts and passes in any order, at most one of
  the up timer and the down timer is enabled. The program does not keep this. Take the run:
  pressure applied; nineteen passes (76 statements); pressure released, which is ignored; the
  twentieth pass as far as line 86 (12 statements); pressure applied; line 86; pressure
  released. At its end both timers are enabled: the up timer was enabled again by the falling
  edge before line 86, and the down timer by the rising edge after it.
\<close>

theorem expiry_race_both_timers_enabled:
  "timer_up_en
     (snd (exec (Fall # replicate 76 (Main 0) @ Rise # replicate 12 (Main 0) @
                 [Fall, Main 0, Rise]) (L191, initial_state))) \<and>
   timer_down_en
     (snd (exec (Fall # replicate 76 (Main 0) @ Rise # replicate 12 (Main 0) @
                 [Fall, Main 0, Rise]) (L191, initial_state))) \<and>
   fst (exec (Fall # replicate 76 (Main 0) @ Rise # replicate 12 (Main 0) @
              [Fall, Main 0, Rise]) (L191, initial_state)) = L191"
  by (simp add: stepping initial_state_def constants exec_append)

subsection \<open>Timer expiry\<close>

text \<open>
  Claim C7. Advancing the timers never leaves a timer value negative: values that are not
  negative before \<^verbatim>\<open>iterate_and_check_timer\<close> are not negative after it, and in every
  reachable state both values are above zero. When the timer that is advanced reaches zero or
  less, the same call switches that direction's output off, disables the timer (so that, with
  the other timer disabled as well, no timer is enabled), sets the position to up for the up
  timer and to down for the down timer, and puts the timer back to its full duration. So in
  every reachable state a disabled timer holds its full duration, ready for the next motion.
\<close>

theorem timer_expiry_stops_and_resets:
  "(0 \<le> timer_up_value s \<and> 0 \<le> timer_down_value s \<longrightarrow>
      0 \<le> timer_up_value (iterate_and_check_timer s) \<and>
      0 \<le> timer_down_value (iterate_and_check_timer s)) \<and>
   (timer_up_en s \<and> timer_up_value s - CYCLE_TIME \<le> 0 \<longrightarrow>
      \<not> OutputMotorUp (iterate_and_check_timer s) \<and>
      \<not> timer_up_en (iterate_and_check_timer s) \<and>
      (\<not> timer_down_en s \<longrightarrow> \<not> timer_down_en (iterate_and_check_timer s)) \<and>
      door_is_up (iterate_and_check_timer s) \<and>
      timer_up_value (iterate_and_check_timer s) = DOOR_RISE_TIME) \<and>
   (\<not> timer_up_en s \<and> timer_down_en s \<and> timer_down_value s - CYCLE_TIME \<le> 0 \<longrightarrow>
      \<not> OutputMotorDown (iterate_and_check_timer s) \<and>
      \<not> timer_down_en (iterate_and_check_timer s) \<and>
      \<not> timer_up_en (iterate_and_check_timer s) \<and>
      \<not> door_is_up (iterate_and_check_timer s) \<and>
      timer_down_value (iterate_and_check_timer s) = DOOR_FALL_TIME) \<and>
   0 < timer_up_value (run es initial_state) \<and>
   0 < timer_down_value (run es initial_state) \<and>
   (\<not> timer_up_en (run es initial_state) \<longrightarrow>
      timer_up_value (run es initial_state) = DOOR_RISE_TIME) \<and>
   (\<not> timer_down_en (run es initial_state) \<longrightarrow>
      timer_down_value (run es initial_state) = DOOR_FALL_TIME)"
proof -
  have advance: "0 \<le> timer_up_value s \<and> 0 \<le> timer_down_value s \<longrightarrow>
      0 \<le> timer_up_value (iterate_and_check_timer s) \<and>
      0 \<le> timer_down_value (iterate_and_check_timer s)"
    by (simp add: iterate_and_check_timer_def light_LED_def Let_def
        DOOR_RISE_TIME_def DOOR_FALL_TIME_def)
  have up: "timer_up_en s \<and> timer_up_value s - CYCLE_TIME \<le> 0 \<longrightarrow>
      \<not> OutputMotorUp (iterate_and_check_timer s) \<and>
      \<not> timer_up_en (iterate_and_check_timer s) \<and>
      (\<not> timer_down_en s \<longrightarrow> \<not> timer_down_en (iterate_and_check_timer s)) \<and>
      door_is_up (iterate_and_check_timer s) \<and>
      timer_up_value (iterate_and_check_timer s) = DOOR_RISE_TIME"
    by (simp add: iterate_and_check_timer_def light_LED_def Let_def)
  have down: "\<not> timer_up_en s \<and> timer_down_en s \<and> timer_down_value s - CYCLE_TIME \<le> 0 \<longrightarrow>
      \<not> OutputMotorDown (iterate_and_check_timer s) \<and>
      \<not> timer_down_en (iterate_and_check_timer s) \<and>
      \<not> timer_up_en (iterate_and_check_timer s) \<and>
      \<not> door_is_up (iterate_and_check_timer s) \<and>
      timer_down_value (iterate_and_check_timer s) = DOOR_FALL_TIME"
    by (simp add: iterate_and_check_timer_def light_LED_def Let_def)
  from timers_ok_reachable [of es]
  have reach: "0 < timer_up_value (run es initial_state) \<and>
      0 < timer_down_value (run es initial_state) \<and>
      (\<not> timer_up_en (run es initial_state) \<longrightarrow>
         timer_up_value (run es initial_state) = DOOR_RISE_TIME) \<and>
      (\<not> timer_down_en (run es initial_state) \<longrightarrow>
         timer_down_value (run es initial_state) = DOOR_FALL_TIME)"
    by (simp add: timers_ok_def on_grid_pos)
  from advance up down reach show ?thesis by blast
qed

theorem timer_expiry_stops_and_resets_witness:
  "timer_up_en (run (PressureDetected # map Tick (replicate 19 0)) initial_state) \<and>
   OutputMotorUp (run (PressureDetected # map Tick (replicate 19 0)) initial_state) \<and>
   timer_up_value (run (PressureDetected # map Tick (replicate 19 0)) initial_state)
     - CYCLE_TIME \<le> 0 \<and>
   \<not> OutputMotorUp (iterate_and_check_timer
       (run (PressureDetected # map Tick (replicate 19 0)) initial_state)) \<and>
   \<not> timer_up_en (iterate_and_check_timer
       (run (PressureDetected # map Tick (replicate 19 0)) initial_state)) \<and>
   door_is_up (iterate_and_check_timer
     (run (PressureDetected # map Tick (replicate 19 0)) initial_state)) \<and>
   timer_up_value (iterate_and_check_timer
     (run (PressureDetected # map Tick (replicate 19 0)) initial_state)) = DOOR_RISE_TIME"
proof -
  have "timer_up_en (run (PressureDetected # map Tick (replicate 19 0)) initial_state) \<and>
   OutputMotorUp (run (PressureDetected # map Tick (replicate 19 0)) initial_state) \<and>
   timer_up_value (run (PressureDetected # map Tick (replicate 19 0)) initial_state)
     - CYCLE_TIME \<le> 0"
    by (simp add: evaluation numeral_eq_Suc)
  with timer_expiry_stops_and_resets
    [of "run (PressureDetected # map Tick (replicate 19 0)) initial_state" "[]"]
  show ?thesis by simp
qed

subsection \<open>A repeated pressure-detected interrupt\<close>

text \<open>
  Claim C8. Two calls of \<^verbatim>\<open>pressure_detected\<close> in a row leave the state (timer values,
  enable flags, motor outputs, position) as one call does; a call while the up timer is
  enabled changes nothing, so it neither restarts the timer nor changes direction.
\<close>

theorem pressure_detected_idempotent:
  "pressure_detected (pressure_detected s) = pressure_detected s \<and>
   (timer_up_en s \<longrightarrow> pressure_detected s = s)"
  by (simp add: pressure_detected_def light_LED_def Let_def)

theorem pressure_detected_idempotent_witness:
  "timer_up_en (cycle 0 (pressure_detected initial_state)) \<and>
   timer_up_value (cycle 0 (pressure_detected initial_state)) = 19 / 2 \<and>
   pressure_detected (cycle 0 (pressure_detected initial_state)) =
     cycle 0 (pressure_detected initial_state)"
proof -
  have "timer_up_en (cycle 0 (pressure_detected initial_state)) \<and>
        timer_up_value (cycle 0 (pressure_detected initial_state)) = 19 / 2"
    by (simp add: evaluation)
  with pressure_detected_idempotent [of "cycle 0 (pressure_detected initial_state)"]
  show ?thesis by simp
qed

subsection \<open>After an overload the timer runs on\<close>

text \<open>
  Claim C9. \<^verbatim>\<open>check_torque_sensor\<close> never changes the two enable flags, the two timer
  values or the position; on overload it writes the two motor outputs and the LEDs and nothing
  else. So when a cycle with an overload is followed by further cycles, with any readings,
  both outputs stay off, yet an enabled timer keeps going down by one cycle time per cycle,
  and once the cycles cover the time that was left the timer has expired and the position is
  the target of the travel: up for the up timer, down for the down timer.
\<close>

theorem overload_leaves_timers_and_position:
  "timer_up_en (check_torque_sensor c s) = timer_up_en s \<and>
   timer_down_en (check_torque_sensor c s) = timer_down_en s \<and>
   timer_up_value (check_torque_sensor c s) = timer_up_value s \<and>
   timer_down_value (check_torque_sensor c s) = timer_down_value s \<and>
   door_is_up (check_torque_sensor c s) = door_is_up s \<and>
   (MOTOR_CURRENT_LIMIT \<le> c \<longrightarrow>
      check_torque_sensor c s =
        s\<lparr>OutputMotorUp := False, OutputMotorDown := False,
          RED_LED := False, GREEN_LED := True, BLUE_LED := True\<rparr> \<and>
      \<not> OutputMotorUp (ticks (c # cs) s) \<and> \<not> OutputMotorDown (ticks (c # cs) s)) \<and>
   (MOTOR_CURRENT_LIMIT \<le> c \<and> timer_up_en s \<and>
    real (length (c # cs)) * CYCLE_TIME < timer_up_value s \<longrightarrow>
      timer_up_en (ticks (c # cs) s) \<and>
      timer_up_value (ticks (c # cs) s) =
        timer_up_value s - real (length (c # cs)) * CYCLE_TIME \<and>
      door_is_up (ticks (c # cs) s) = door_is_up s) \<and>
   (MOTOR_CURRENT_LIMIT \<le> c \<and> timer_up_en s \<and> \<not> timer_down_en s \<and>
    timer_up_value s \<le> real (length (c # cs)) * CYCLE_TIME \<longrightarrow>
      door_is_up (ticks (c # cs) s) \<and> \<not> timer_up_en (ticks (c # cs) s)) \<and>
   (MOTOR_CURRENT_LIMIT \<le> c \<and> \<not> timer_up_en s \<and> timer_down_en s \<and>
    real (length (c # cs)) * CYCLE_TIME < timer_down_value s \<longrightarrow>
      timer_down_en (ticks (c # cs) s) \<and>
      timer_down_value (ticks (c # cs) s) =
        timer_down_value s - real (length (c # cs)) * CYCLE_TIME \<and>
      door_is_up (ticks (c # cs) s) = door_is_up s) \<and>
   (MOTOR_CURRENT_LIMIT \<le> c \<and> \<not> timer_up_en s \<and> timer_down_en s \<and>
    timer_down_value s \<le> real (length (c # cs)) * CYCLE_TIME \<longrightarrow>
      \<not> door_is_up (ticks (c # cs) s) \<and> \<not> timer_down_en (ticks (c # cs) s))"
  using check_torque_sensor_frame [of c s] check_torque_sensor_overload [of c s]
    ticks_overload_outputs_off [of c cs s]
    ticks_up_running [of s "c # cs"] ticks_up_expires [of s "c # cs"]
    ticks_down_running [of s "c # cs"] ticks_down_expires [of s "c # cs"]
  by simp

theorem overload_leaves_timers_and_position_witness:
  "MOTOR_CURRENT_LIMIT \<le> 3 / 20 \<and>
   timer_up_en (pressure_detected initial_state) \<and>
   \<not> timer_down_en (pressure_detected initial_state) \<and>
   timer_up_value (pressure_detected initial_state)
     \<le> real (length (3 / 20 # replicate 19 (0::real))) * CYCLE_TIME \<and>
   \<not> door_is_up (pressure_detected initial_state) \<and>
   \<not> OutputMotorUp (ticks (3 / 20 # replicate 19 0) (pressure_detected initial_state)) \<and>
   door_is_up (ticks (3 / 20 # replicate 19 0) (pressure_detected initial_state)) \<and>
   \<not> timer_up_en (ticks (3 / 20 # replicate 19 0) (pressure_detected initial_state))"
proof -
  have "MOTOR_CURRENT_LIMIT \<le> 3 / 20 \<and>
        timer_up_en (pressure_detected initial_state) \<and>
        \<not> timer_down_en (pressure_detected initial_state) \<and>
        timer_up_value (pressure_detected initial_state)
          \<le> real (length (3 / 20 # replicate 19 (0::real))) * CYCLE_TIME \<and>
        \<not> door_is_up (pressure_detected initial_state)"
    by (simp add: evaluation)
  with overload_leaves_timers_and_position
    [of "3 / 20" "pressure_detected initial_state" "replicate 19 0"]
  show ?thesis by simp
qed

subsection \<open>The LEDs\<close>

text \<open>
  Claim C10. After \<^verbatim>\<open>light_LED\<close> at most one LED is lit: the red one for 0, the green
  one for 1, the blue one for 2, and none for any other argument, which leaves all three
  pins at 1.
\<close>

theorem light_LED_lights_at_most_one:
  "lit_LEDs (light_LED LED s) =
     (if LED = 0 then [RED] else if LED = 1 then [GREEN] else if LED = 2 then [BLUE] else []) \<and>
   length (lit_LEDs (light_LED LED s)) \<le> 1 \<and>
   RED_LED (light_LED LED s) = (LED \<noteq> 0) \<and>
   GREEN_LED (light_LED LED s) = (LED \<noteq> 1) \<and>
   BLUE_LED (light_LED LED s) = (LED \<noteq> 2)"
  by (simp add: lit_LEDs_def light_LED_def Let_def constants)

theorem light_LED_lights_at_most_one_witness:
  "lit_LEDs (light_LED 7 (light_LED 1 initial_state)) = [] \<and>
   RED_LED (light_LED 7 (light_LED 1 initial_state)) \<and>
   GREEN_LED (light_LED 7 (light_LED 1 initial_state)) \<and>
   BLUE_LED (light_LED 7 (light_LED 1 initial_state))"
  using light_LED_lights_at_most_one [of 7 "light_LED 1 initial_state"] by simp

end
